theory Spec2Isabelle
  imports Complex_Main "HOL-Library.AList"
begin

section \<open>Python values\<close>

text \<open>
  The module \<^verbatim>\<open>library/forticare_register_units.py\<close> works on loosely typed
  Python values: the parameter dictionary handed over by the automation framework, the
  JSON payload it builds, and the value \<^verbatim>\<open>json.loads\<close> returns for a response body.
  All three are values of one datatype. A dictionary is an association list with string
  keys, read with \<open>map_of\<close> and written with \<open>AList.update\<close> (a new key goes to the
  end, an existing key keeps its place, as in Python).

  A float is kept apart from an int because \<^verbatim>\<open>json.loads\<close> returns one for a number
  with a fraction or an exponent, and for \<^verbatim>\<open>NaN\<close>, \<^verbatim>\<open>Infinity\<close> and \<^verbatim>\<open>-Infinity\<close>.
  A finite float is represented by its exact rational value; negative zero is a value of
  its own.
\<close>

datatype pyfloat = FFinite rat | FNegZero | FInf | FNegInf | FNaN

datatype pyval =
    PNone
  | PBool bool
  | PInt int
  | PFloat pyfloat
  | PStr string
  | PList "pyval list"
  | PDict "(string \<times> pyval) list"

type_synonym pydict = "(string \<times> pyval) list"

text \<open>The exceptions that the modelled code can let escape to its caller.\<close>

datatype pyexc = KeyError string | TypeError | ValueError

text \<open>\<^verbatim>\<open>f == 0.0\<close>: both zeros compare equal to zero, \<^verbatim>\<open>nan\<close> and the infinities do not.\<close>

fun float_is_zero :: "pyfloat \<Rightarrow> bool" where
  "float_is_zero (FFinite q) = (q = 0)"
| "float_is_zero FNegZero = True"
| "float_is_zero FInf = False"
| "float_is_zero FNegInf = False"
| "float_is_zero FNaN = False"

text \<open>Python's truth value of an object, as \<^verbatim>\<open>if v\<close> and \<^verbatim>\<open>a and b\<close> test it.\<close>

fun truthy :: "pyval \<Rightarrow> bool" where
  "truthy PNone = False"
| "truthy (PBool b) = b"
| "truthy (PInt i) = (i \<noteq> 0)"
| "truthy (PFloat f) = (\<not> float_is_zero f)"
| "truthy (PStr s) = (s \<noteq> [])"
| "truthy (PList xs) = (xs \<noteq> [])"
| "truthy (PDict kvs) = (kvs \<noteq> [])"

text \<open>
  \<^verbatim>\<open>v == 0\<close> for the int literal \<^verbatim>\<open>0\<close>: numbers compare by value across int, float
  and bool (\<^verbatim>\<open>False == 0\<close> holds in Python); a value of any other type is unequal.
\<close>

fun py_eq_zero :: "pyval \<Rightarrow> bool" where
  "py_eq_zero (PInt i) = (i = 0)"
| "py_eq_zero (PBool b) = (\<not> b)"
| "py_eq_zero (PFloat f) = float_is_zero f"
| "py_eq_zero PNone = False"
| "py_eq_zero (PStr s) = False"
| "py_eq_zero (PList xs) = False"
| "py_eq_zero (PDict kvs) = False"

text \<open>
  \<^verbatim>\<open>v[k]\<close> with a string key: a dictionary answers or raises \<^verbatim>\<open>KeyError\<close>; every other
  value raises \<^verbatim>\<open>TypeError\<close> (a list or a string wants an integer index, the rest is not
  subscriptable).
\<close>

fun py_getitem :: "pyval \<Rightarrow> string \<Rightarrow> pyexc + pyval" where
  "py_getitem (PDict d) k = (case map_of d k of None \<Rightarrow> Inl (KeyError k) | Some v \<Rightarrow> Inr v)"
| "py_getitem PNone k = Inl TypeError"
| "py_getitem (PBool b) k = Inl TypeError"
| "py_getitem (PInt i) k = Inl TypeError"
| "py_getitem (PFloat f) k = Inl TypeError"
| "py_getitem (PStr s) k = Inl TypeError"
| "py_getitem (PList xs) k = Inl TypeError"

text \<open>
  The items a \<^verbatim>\<open>for\<close> loop visits: the elements of a list, the keys of a dictionary, the
  characters of a string (each a string of length one); the other values are not iterable.
\<close>

fun py_iter :: "pyval \<Rightarrow> pyexc + pyval list" where
  "py_iter (PList xs) = Inr xs"
| "py_iter (PDict kvs) = Inr (map (\<lambda>kv. PStr (fst kv)) kvs)"
| "py_iter (PStr s) = Inr (map (\<lambda>c. PStr [c]) s)"
| "py_iter PNone = Inl TypeError"
| "py_iter (PBool b) = Inl TypeError"
| "py_iter (PInt i) = Inl TypeError"
| "py_iter (PFloat f) = Inl TypeError"

section \<open>Payload construction (lines 122 to 142)\<close>

text \<open>
  \<^verbatim>\<open>if k in src and src[k]: dst[wire] = src[k]\<close>, the statement the function repeats for
  \<^verbatim>\<open>version\<close> and for each optional field of a unit.
\<close>

definition copy_if_truthy :: "pydict \<Rightarrow> string \<Rightarrow> string \<Rightarrow> pydict \<Rightarrow> pydict" where
  "copy_if_truthy src k wire dst =
     (case map_of src k of
        None \<Rightarrow> dst
      | Some v \<Rightarrow> if truthy v then AList.update wire v dst else dst)"

text \<open>
  The body of the loop for one \<^verbatim>\<open>unit\<close>. Its first statement is
  \<^verbatim>\<open>unit['serial_number']\<close>, which raises unless the unit is a dictionary holding that
  key; the six conditional copies follow in the order of the source.
\<close>

fun unit_data :: "pyval \<Rightarrow> pyexc + pydict" where
  "unit_data (PDict unit) =
     (case map_of unit ''serial_number'' of
        None \<Rightarrow> Inl (KeyError ''serial_number'')
      | Some sn \<Rightarrow>
          Inr (copy_if_truthy unit ''is_government'' ''Is_Government''
              (copy_if_truthy unit ''additional_info'' ''Additional_Info''
              (copy_if_truthy unit ''replaced_serial_number'' ''Replaced_Serial_Number''
              (copy_if_truthy unit ''asset_group_ids'' ''Asset_Group_IDS''
              (copy_if_truthy unit ''description'' ''Description''
              (copy_if_truthy unit ''contract_number'' ''Contract_Number''
                 [(''Serial_Number'', sn)])))))))"
| "unit_data PNone = Inl TypeError"
| "unit_data (PBool b) = Inl TypeError"
| "unit_data (PInt i) = Inl TypeError"
| "unit_data (PFloat f) = Inl TypeError"
| "unit_data (PStr s) = Inl TypeError"
| "unit_data (PList xs) = Inl TypeError"

text \<open>
  The \<^verbatim>\<open>for\<close> loop: \<open>acc\<close> is the list \<^verbatim>\<open>body_data['RegistrationUnits']\<close> built so
  far, each round appends one entry, and the first unit that raises ends the loop.
\<close>

fun registration_units :: "pyval list \<Rightarrow> pyval list \<Rightarrow> pyexc + pyval list" where
  "registration_units [] acc = Inr acc"
| "registration_units (unit # units) acc =
     (case unit_data unit of
        Inl e \<Rightarrow> Inl e
      | Inr ud \<Rightarrow> registration_units units (acc @ [PDict ud]))"

text \<open>
  \<^verbatim>\<open>body_data\<close> as it stands when the POST is issued. \<^verbatim>\<open>data\<close> is the parameter
  dictionary; \<^verbatim>\<open>data['token']\<close> and \<^verbatim>\<open>data['registration_units']\<close> raise
  \<^verbatim>\<open>KeyError\<close> when the key is missing.
\<close>

definition body_data :: "pydict \<Rightarrow> pyexc + pydict" where
  "body_data data =
     (case map_of data ''token'' of
        None \<Rightarrow> Inl (KeyError ''token'')
      | Some token \<Rightarrow>
          let b1 = [(''Token'', token)];
              b2 = copy_if_truthy data ''version'' ''Version'' b1;
              b3 = AList.update ''RegistrationUnits'' (PList []) b2
          in (case map_of data ''registration_units'' of
                None \<Rightarrow> Inl (KeyError ''registration_units'')
              | Some ru \<Rightarrow>
                  (case py_iter ru of
                     Inl e \<Rightarrow> Inl e
                   | Inr units \<Rightarrow>
                       (case registration_units units [] of
                          Inl e \<Rightarrow> Inl e
                        | Inr entries \<Rightarrow>
                            Inr (AList.update ''RegistrationUnits'' (PList entries) b3)))))"

section \<open>The transport\<close>

text \<open>
  \<^verbatim>\<open>requests.post(url, json=body_data, timeout=10, verify=True)\<close> is the one call into
  the HTTP library. The library is a parameter of the model: a function from the request
  to what the call does, which is to return a response, to raise
  \<^verbatim>\<open>requests.exceptions.Timeout\<close>, or to raise some other \<^verbatim>\<open>Exception\<close>. For the
  latter the model keeps the two strings the handler reads from it,
  \<^verbatim>\<open>str(e.__traceback__)\<close> and \<^verbatim>\<open>traceback.format_exc()\<close>.

  Of a response the code reads \<^verbatim>\<open>status_code\<close>, \<^verbatim>\<open>reason\<close> and \<^verbatim>\<open>content\<close>, and the
  body only through \<^verbatim>\<open>json.loads\<close>: so the body is represented by what \<^verbatim>\<open>json.loads\<close>
  does on it, which is to raise \<^verbatim>\<open>ValueError\<close> (\<^verbatim>\<open>JSONDecodeError\<close> is a subclass) or to
  return a value.
\<close>

record request =
  req_url :: string
  req_json :: pyval
  req_timeout :: nat
  req_verify :: bool

datatype body = NotJSON | JSON pyval

record response =
  r_status_code :: int
  r_reason :: string
  r_content :: body

record exc_info =
  traceback_str :: string
  format_exc :: string

datatype post_result = Returns response | RaisesTimeout | RaisesException exc_info

definition json_loads :: "body \<Rightarrow> pyexc + pyval" where
  "json_loads b = (case b of NotJSON \<Rightarrow> Inl ValueError | JSON v \<Rightarrow> Inr v)"

text \<open>
  The truth value of a response object, which \<^verbatim>\<open>r and ...\<close> tests three times:
  \<^verbatim>\<open>requests.Response.__bool__\<close> returns \<^verbatim>\<open>self.ok\<close>, and \<^verbatim>\<open>ok\<close> is false exactly when
  \<^verbatim>\<open>raise_for_status\<close> would raise, that is for a status code from 400 to 599. The
  other conjunct, \<^verbatim>\<open>'content' in dir(r)\<close> (and the same for \<^verbatim>\<open>status_code\<close> and
  \<^verbatim>\<open>reason\<close>), holds for every response object.
\<close>

definition response_truthy :: "response \<Rightarrow> bool" where
  "response_truthy r = (\<not> (400 \<le> r_status_code r \<and> r_status_code r < 600))"

section \<open>The outcome\<close>

text \<open>
  The function returns a triple \<^verbatim>\<open>(success, not success, result)\<close>, which \<^verbatim>\<open>main\<close>
  unpacks as \<^verbatim>\<open>is_error, has_changed, result\<close>; \<^verbatim>\<open>result\<close> is a dictionary with the keys
  \<^verbatim>\<open>status_code\<close>, \<^verbatim>\<open>reason\<close> and \<^verbatim>\<open>content\<close>, where \<open>None\<close> and \<open>PNone\<close> stand
  for Python's \<^verbatim>\<open>None\<close>.
\<close>

record result_dict =
  status_code :: "int option"
  reason :: "string option"
  content :: pyval

record outcome =
  is_error :: bool
  changed :: bool
  result :: result_dict

definition url :: string where
  "url = ''https://support.fortinet.com/ES/FCWS_RegistrationService.svc/REST/REST_RegisterUnits''"

definition post_request :: "pydict \<Rightarrow> request" where
  "post_request body =
     \<lparr>req_url = url, req_json = PDict body, req_timeout = 10, req_verify = True\<rparr>"

text \<open>
  Lines 158 to 165, what the function does with a response \<open>r\<close>. The conditional
  expression binds weakest, so line 164 reads
  \<^verbatim>\<open>(r.status_code != 200 or content['Status'] != 0) if content else True\<close>, and
  \<^verbatim>\<open>or\<close> evaluates \<^verbatim>\<open>content['Status']\<close> only when the status code is 200.
\<close>

definition on_response :: "response \<Rightarrow> pyexc + outcome" where
  "on_response r =
     (case (if response_truthy r then json_loads (r_content r) else Inr PNone) of
        Inl e \<Rightarrow> Inl e
      | Inr c \<Rightarrow>
          let res = \<lparr>status_code = (if response_truthy r then Some (r_status_code r) else None),
                     reason = (if response_truthy r then Some (r_reason r) else None),
                     content = c\<rparr>
          in (case (if truthy c
                    then (if r_status_code r \<noteq> 200 then Inr True
                          else (case py_getitem c ''Status'' of
                                  Inl e \<Rightarrow> Inl e
                                | Inr s \<Rightarrow> Inr (\<not> py_eq_zero s)))
                    else Inr True) of
                Inl e \<Rightarrow> Inl e
              | Inr success \<Rightarrow>
                  Inr \<lparr>is_error = success, changed = (\<not> success), result = res\<rparr>))"

text \<open>
  The whole function. Beside what it returns or raises, the model gives the list of the
  requests it has sent, in order: the network is the only effect of the code.
\<close>

definition forticare_register_units ::
  "(request \<Rightarrow> post_result) \<Rightarrow> pydict \<Rightarrow> (pyexc + outcome) \<times> request list" where
  "forticare_register_units post data =
     (case body_data data of
        Inl e \<Rightarrow> (Inl e, [])
      | Inr body \<Rightarrow>
          (case post (post_request body) of
             RaisesTimeout \<Rightarrow>
               (Inr \<lparr>is_error = True, changed = False,
                     result = \<lparr>status_code = None,
                               reason = Some ''Timeout contacting FortiCare server'',
                               content = PNone\<rparr>\<rparr>,
                [post_request body])
           | RaisesException e \<Rightarrow>
               (Inr \<lparr>is_error = True, changed = False,
                     result = \<lparr>status_code = None,
                               reason = Some ''General exception when running POST on FortiCare server'',
                               content = PStr (traceback_str e @ format_exc e)\<rparr>\<rparr>,
                [post_request body])
           | Returns r \<Rightarrow> (on_response r, [post_request body])))"

section \<open>Requests as the module declares them\<close>

text \<open>
  \<^verbatim>\<open>main\<close> declares \<^verbatim>\<open>token\<close> and \<^verbatim>\<open>registration_units\<close> as required, the latter a
  list, and \<^verbatim>\<open>serial_number\<close> as required in every unit. A request of that shape is
  well formed; the types of the values play no part in what the function does with them.
\<close>

definition well_formed_unit :: "pyval \<Rightarrow> bool" where
  "well_formed_unit unit =
     (case unit of PDict u \<Rightarrow> map_of u ''serial_number'' \<noteq> None | _ \<Rightarrow> False)"

definition well_formed_request :: "pydict \<Rightarrow> bool" where
  "well_formed_request data =
     (map_of data ''token'' \<noteq> None \<and>
      (case map_of data ''registration_units'' of
         Some (PList units) \<Rightarrow> list_all well_formed_unit units
       | _ \<Rightarrow> False))"

text \<open>The optional fields of a unit, each with the key it has on the wire.\<close>

definition optional_fields :: "(string \<times> string) list" where
  "optional_fields =
     [(''contract_number'', ''Contract_Number''),
      (''description'', ''Description''),
      (''asset_group_ids'', ''Asset_Group_IDS''),
      (''replaced_serial_number'', ''Replaced_Serial_Number''),
      (''additional_info'', ''Additional_Info''),
      (''is_government'', ''Is_Government'')]"

text \<open>
  What the wire format is to carry for the input key \<open>k\<close> of \<open>src\<close>: the value itself
  when the key is present with a truthy value, and nothing when the key is absent or its
  value is falsy.
\<close>

definition wire_value :: "pydict \<Rightarrow> string \<Rightarrow> pyval option" where
  "wire_value src k =
     (case map_of src k of None \<Rightarrow> None | Some v \<Rightarrow> if truthy v then Some v else None)"

section \<open>Example inputs\<close>

text \<open>
  The playbook entry of the module's \<^verbatim>\<open>EXAMPLES\<close> block with the payload it leads to, a
  transport that answers every request in one given way, and a few responses.
\<close>

definition example_unit :: pyval where
  "example_unit =
     PDict [(''serial_number'', PStr ''FMG-3K3407400133''),
            (''contract_number'', PStr []),
            (''description'', PStr ''Backup device''),
            (''asset_group_ids'', PStr []),
            (''replaced_serial_number'', PStr []),
            (''additional_info'', PStr ''10.1.1.1''),
            (''is_government'', PBool False)]"

definition example_data :: pydict where
  "example_data =
     [(''token'', PStr ''YOUR_TOKEN''),
      (''version'', PStr ''1.0''),
      (''registration_units'', PList [example_unit])]"

definition example_entry :: pydict where
  "example_entry =
     [(''Serial_Number'', PStr ''FMG-3K3407400133''),
      (''Description'', PStr ''Backup device''),
      (''Additional_Info'', PStr ''10.1.1.1'')]"

definition example_body :: pydict where
  "example_body =
     [(''Token'', PStr ''YOUR_TOKEN''),
      (''Version'', PStr ''1.0''),
      (''RegistrationUnits'', PList [PDict example_entry])]"

text \<open>
  A request with three units whose serial numbers are not in alphabetical order, the
  second unit with a description.
\<close>

definition three_units_data :: pydict where
  "three_units_data =
     [(''token'', PStr ''YOUR_TOKEN''),
      (''registration_units'',
         PList [PDict [(''serial_number'', PStr ''FGT-C'')],
                PDict [(''serial_number'', PStr ''FGT-A''), (''description'', PStr ''Spare'')],
                PDict [(''serial_number'', PStr ''FGT-B'')]])]"

definition simulated :: "post_result \<Rightarrow> request \<Rightarrow> post_result" where
  "simulated res req = res"

definition response_registered :: response where
  "response_registered =
     \<lparr>r_status_code = 200, r_reason = ''OK'',
      r_content = JSON (PDict [(''Status'', PInt 0), (''Message'', PStr ''Success'')])\<rparr>"

definition response_empty_object :: response where
  "response_empty_object =
     \<lparr>r_status_code = 200, r_reason = ''OK'', r_content = JSON (PDict [])\<rparr>"

definition response_not_json :: response where
  "response_not_json = \<lparr>r_status_code = 200, r_reason = ''OK'', r_content = NotJSON\<rparr>"

definition response_without_status :: response where
  "response_without_status =
     \<lparr>r_status_code = 200, r_reason = ''OK'',
      r_content = JSON (PDict [(''Message'', PStr ''Invalid token'')])\<rparr>"

definition response_500 :: response where
  "response_500 =
     \<lparr>r_status_code = 500, r_reason = ''Internal Server Error'', r_content = NotJSON\<rparr>"

definition example_exc :: exc_info where
  "example_exc =
     \<lparr>traceback_str = ''<traceback object>'',
      format_exc = ''ConnectionError: connection refused''\<rparr>"

section \<open>The payload\<close>

lemma body_data_example: "body_data example_data = Inr example_body"
  by (simp add: body_data_def example_data_def example_unit_def example_body_def
      example_entry_def copy_if_truthy_def)

lemma well_formed_example: "well_formed_request example_data"
  by (simp add: well_formed_request_def well_formed_unit_def example_data_def example_unit_def)

lemma map_of_copy_if_truthy:
  "map_of (copy_if_truthy src k wire dst) x =
     (if x = wire
      then (case map_of src k of
              None \<Rightarrow> map_of dst x
            | Some v \<Rightarrow> if truthy v then Some v else map_of dst x)
      else map_of dst x)"
  by (simp add: copy_if_truthy_def update_conv' split: option.split)

text \<open>The loop appends to what it was given, one entry per unit and in the units' order.\<close>

lemma registration_units_acc:
  "registration_units units acc = Inr entries \<Longrightarrow>
     \<exists>new. entries = acc @ new \<and>
       list_all2 (\<lambda>unit entry. \<exists>ud. unit_data unit = Inr ud \<and> entry = PDict ud) units new"
proof (induction units arbitrary: acc)
  case Nil
  then show ?case by simp
next
  case (Cons unit units)
  then obtain ud where ud: "unit_data unit = Inr ud"
    and rest: "registration_units units (acc @ [PDict ud]) = Inr entries"
    by (auto split: sum.splits)
  from Cons.IH [OF rest] obtain new where
    "entries = (acc @ [PDict ud]) @ new"
    "list_all2 (\<lambda>unit entry. \<exists>ud. unit_data unit = Inr ud \<and> entry = PDict ud) units new"
    by blast
  with ud show ?case by (intro exI [of _ "PDict ud # new"]) simp
qed

lemma well_formed_unitE:
  assumes "well_formed_unit unit"
  obtains u sn where "unit = PDict u" "map_of u ''serial_number'' = Some sn"
  using assms by (auto simp: well_formed_unit_def split: pyval.splits)

lemma registration_units_total:
  "list_all well_formed_unit units \<Longrightarrow> \<exists>entries. registration_units units acc = Inr entries"
proof (induction units arbitrary: acc)
  case Nil
  then show ?case by simp
next
  case (Cons unit units)
  then obtain u sn where "unit = PDict u" "map_of u ''serial_number'' = Some sn"
    by (auto elim: well_formed_unitE)
  with Cons show ?case by simp
qed

lemma unit_data_serial:
  "unit_data (PDict u) = Inr e \<Longrightarrow> map_of e ''Serial_Number'' = map_of u ''serial_number''"
  by (auto simp: map_of_copy_if_truthy split: option.splits)

lemma unit_data_unfold:
  assumes "unit_data (PDict u) = Inr e"
  obtains sn where "map_of u ''serial_number'' = Some sn" "e =
     copy_if_truthy u ''is_government'' ''Is_Government''
       (copy_if_truthy u ''additional_info'' ''Additional_Info''
       (copy_if_truthy u ''replaced_serial_number'' ''Replaced_Serial_Number''
       (copy_if_truthy u ''asset_group_ids'' ''Asset_Group_IDS''
       (copy_if_truthy u ''description'' ''Description''
       (copy_if_truthy u ''contract_number'' ''Contract_Number''
          [(''Serial_Number'', sn)])))))"
  using assms by (auto split: option.splits)

lemma optional_cases:
  assumes "(k, wire) \<in> set optional_fields"
  shows "(k = ''contract_number'' \<and> wire = ''Contract_Number'') \<or>
     (k = ''description'' \<and> wire = ''Description'') \<or>
     (k = ''asset_group_ids'' \<and> wire = ''Asset_Group_IDS'') \<or>
     (k = ''replaced_serial_number'' \<and> wire = ''Replaced_Serial_Number'') \<or>
     (k = ''additional_info'' \<and> wire = ''Additional_Info'') \<or>
     (k = ''is_government'' \<and> wire = ''Is_Government'')"
  using assms unfolding optional_fields_def by simp

text \<open>
  A later copy never overwrites an earlier one, the seven wire keys being distinct: each
  optional key of the entry holds what its own input key calls for.
\<close>

lemma unit_data_optional:
  assumes "unit_data (PDict u) = Inr e" and "(k, wire) \<in> set optional_fields"
  shows "map_of e wire = wire_value u k"
proof -
  from assms(1) obtain sn where e: "e =
     copy_if_truthy u ''is_government'' ''Is_Government''
       (copy_if_truthy u ''additional_info'' ''Additional_Info''
       (copy_if_truthy u ''replaced_serial_number'' ''Replaced_Serial_Number''
       (copy_if_truthy u ''asset_group_ids'' ''Asset_Group_IDS''
       (copy_if_truthy u ''description'' ''Description''
       (copy_if_truthy u ''contract_number'' ''Contract_Number''
          [(''Serial_Number'', sn)])))))"
    by (rule unit_data_unfold)
  have 1: "map_of e ''Contract_Number'' = wire_value u ''contract_number''"
    by (simp add: e map_of_copy_if_truthy wire_value_def split: option.split)
  have 2: "map_of e ''Description'' = wire_value u ''description''"
    by (simp add: e map_of_copy_if_truthy wire_value_def split: option.split)
  have 3: "map_of e ''Asset_Group_IDS'' = wire_value u ''asset_group_ids''"
    by (simp add: e map_of_copy_if_truthy wire_value_def split: option.split)
  have 4: "map_of e ''Replaced_Serial_Number'' = wire_value u ''replaced_serial_number''"
    by (simp add: e map_of_copy_if_truthy wire_value_def split: option.split)
  have 5: "map_of e ''Additional_Info'' = wire_value u ''additional_info''"
    by (simp add: e map_of_copy_if_truthy wire_value_def split: option.split)
  have 6: "map_of e ''Is_Government'' = wire_value u ''is_government''"
    by (simp add: e map_of_copy_if_truthy wire_value_def split: option.split)
  from optional_cases [OF assms(2)] 1 2 3 4 5 6 show ?thesis
    by (elim disjE conjE) simp_all
qed

text \<open>
  A well-formed request raises nothing while the payload is built, and the payload has
  the token, the version when there is one to send, and one entry for each unit.
\<close>

lemma body_data_entries:
  assumes "well_formed_request data"
  obtains body token units entries where
    "body_data data = Inr body"
    "map_of data ''token'' = Some token"
    "map_of data ''registration_units'' = Some (PList units)"
    "map_of body ''Token'' = Some token"
    "map_of body ''Version'' = wire_value data ''version''"
    "map_of body ''RegistrationUnits'' = Some (PList entries)"
    "list_all2 (\<lambda>unit entry. \<exists>u e sn. unit = PDict u \<and> entry = PDict e \<and>
        map_of u ''serial_number'' = Some sn \<and> unit_data unit = Inr e) units entries"
proof -
  from assms obtain token units where
    t: "map_of data ''token'' = Some token" and
    u: "map_of data ''registration_units'' = Some (PList units)" and
    w: "list_all well_formed_unit units"
    by (auto simp: well_formed_request_def split: option.splits pyval.splits)
  from registration_units_total [OF w] obtain entries where
    e: "registration_units units [] = Inr entries" by blast
  let ?body = "AList.update ''RegistrationUnits'' (PList entries)
             (AList.update ''RegistrationUnits'' (PList [])
               (copy_if_truthy data ''version'' ''Version'' [(''Token'', token)]))"
  have b: "body_data data = Inr ?body"
    by (simp add: body_data_def t u e)
  have tok: "map_of ?body ''Token'' = Some token"
    by (simp add: update_conv' map_of_copy_if_truthy)
  have ver: "map_of ?body ''Version'' = wire_value data ''version''"
    by (simp add: update_conv' map_of_copy_if_truthy wire_value_def split: option.split)
  have ent: "map_of ?body ''RegistrationUnits'' = Some (PList entries)"
    by (simp add: update_conv')
  from registration_units_acc [OF e]
  have l: "list_all2 (\<lambda>unit entry. \<exists>ud. unit_data unit = Inr ud \<and> entry = PDict ud) units entries"
    by simp
  have "list_all2 (\<lambda>unit entry. \<exists>u e sn. unit = PDict u \<and> entry = PDict e \<and>
        map_of u ''serial_number'' = Some sn \<and> unit_data unit = Inr e) units entries"
  proof (rule list_all2_all_nthI)
    show "length units = length entries" using l by (rule list_all2_lengthD)
  next
    fix n assume n: "n < length units"
    with l obtain ud where ud: "unit_data (units ! n) = Inr ud" "entries ! n = PDict ud"
      by (auto dest: list_all2_nthD)
    from w n have "well_formed_unit (units ! n)" by (simp add: list_all_length)
    then obtain u sn where "units ! n = PDict u" "map_of u ''serial_number'' = Some sn"
      by (rule well_formed_unitE)
    with ud show "\<exists>u e sn. units ! n = PDict u \<and> entries ! n = PDict e \<and>
        map_of u ''serial_number'' = Some sn \<and> unit_data (units ! n) = Inr e"
      by simp
  qed
  with b t u tok ver ent show thesis by (rule that)
qed

text \<open>
  C9: for every well-formed request the payload is built, it holds \<^verbatim>\<open>Token\<close> with the
  value of the input \<^verbatim>\<open>token\<close>, and it holds \<^verbatim>\<open>Version\<close>, with the value of the input
  \<^verbatim>\<open>version\<close>, exactly when \<^verbatim>\<open>version\<close> is present and truthy (for a string: not
  empty); otherwise the payload has no \<^verbatim>\<open>Version\<close> key.
\<close>
theorem payload_token_version:
  assumes "well_formed_request data"
  shows "\<exists>body token. body_data data = Inr body \<and>
           map_of data ''token'' = Some token \<and>
           map_of body ''Token'' = Some token \<and>
           map_of body ''Version'' = wire_value data ''version''"
  using assms by (rule body_data_entries) blast

text \<open>The example request: its token and its version \<^verbatim>\<open>1.0\<close> are both sent.\<close>
theorem payload_token_version_witness:
  "well_formed_request example_data \<and>
   (\<exists>body. body_data example_data = Inr body \<and>
      map_of body ''Token'' = Some (PStr ''YOUR_TOKEN'') \<and>
      map_of body ''Version'' = Some (PStr ''1.0''))"
proof -
  have wf: "well_formed_request example_data"
    by (simp add: well_formed_request_def well_formed_unit_def example_data_def example_unit_def)
  have "map_of example_data ''token'' = Some (PStr ''YOUR_TOKEN'')"
    and "wire_value example_data ''version'' = Some (PStr ''1.0'')"
    by (simp_all add: example_data_def wire_value_def)
  with payload_token_version [OF wf] wf show ?thesis by auto
qed

text \<open>
  C7: for every well-formed request the \<^verbatim>\<open>RegistrationUnits\<close> list of the payload has
  as many entries as the request has units, and the entry at each position is the one
  of the unit at that position: it is a dictionary whose \<^verbatim>\<open>Serial_Number\<close> is that
  unit's \<^verbatim>\<open>serial_number\<close>.
\<close>
theorem registration_units_order:
  assumes "well_formed_request data"
  shows "\<exists>body units entries. body_data data = Inr body \<and>
           map_of data ''registration_units'' = Some (PList units) \<and>
           map_of body ''RegistrationUnits'' = Some (PList entries) \<and>
           length entries = length units \<and>
           (\<forall>i<length units. \<exists>u e sn. units ! i = PDict u \<and> entries ! i = PDict e \<and>
              map_of u ''serial_number'' = Some sn \<and> map_of e ''Serial_Number'' = Some sn)"
proof -
  from assms obtain body units entries where
    b: "body_data data = Inr body"
       "map_of data ''registration_units'' = Some (PList units)"
       "map_of body ''RegistrationUnits'' = Some (PList entries)" and
    l: "list_all2 (\<lambda>unit entry. \<exists>u e sn. unit = PDict u \<and> entry = PDict e \<and>
        map_of u ''serial_number'' = Some sn \<and> unit_data unit = Inr e) units entries"
    by (rule body_data_entries)
  have len: "length entries = length units" using l by (simp add: list_all2_lengthD)
  have "\<exists>u e sn. units ! i = PDict u \<and> entries ! i = PDict e \<and>
          map_of u ''serial_number'' = Some sn \<and> map_of e ''Serial_Number'' = Some sn"
    if "i < length units" for i
  proof -
    from list_all2_nthD [OF l that] obtain u e sn where
      "units ! i = PDict u" "entries ! i = PDict e"
      "map_of u ''serial_number'' = Some sn" "unit_data (units ! i) = Inr e"
      by blast
    moreover from this have "map_of e ''Serial_Number'' = Some sn"
      using unit_data_serial [of u e] by simp
    ultimately show ?thesis by blast
  qed
  with b len show ?thesis by blast
qed

text \<open>
  Three units with the serial numbers \<^verbatim>\<open>FGT-C\<close>, \<^verbatim>\<open>FGT-A\<close>, \<^verbatim>\<open>FGT-B\<close>, in this order:
  three entries, with the same serial numbers in the same order.
\<close>
theorem registration_units_order_witness:
  "well_formed_request three_units_data \<and>
   (\<exists>body entries e0 e1 e2. body_data three_units_data = Inr body \<and>
      map_of body ''RegistrationUnits'' = Some (PList entries) \<and>
      length entries = 3 \<and>
      entries ! 0 = PDict e0 \<and> map_of e0 ''Serial_Number'' = Some (PStr ''FGT-C'') \<and>
      entries ! 1 = PDict e1 \<and> map_of e1 ''Serial_Number'' = Some (PStr ''FGT-A'') \<and>
      entries ! 2 = PDict e2 \<and> map_of e2 ''Serial_Number'' = Some (PStr ''FGT-B''))"
proof -
  have wf: "well_formed_request three_units_data"
    by (simp add: well_formed_request_def well_formed_unit_def three_units_data_def)
  from registration_units_order [OF wf] obtain body units entries where
    b: "body_data three_units_data = Inr body"
       "map_of body ''RegistrationUnits'' = Some (PList entries)" and
    u: "map_of three_units_data ''registration_units'' = Some (PList units)" and
    len: "length entries = length units" and
    all: "\<forall>i<length units. \<exists>u e sn. units ! i = PDict u \<and> entries ! i = PDict e \<and>
              map_of u ''serial_number'' = Some sn \<and> map_of e ''Serial_Number'' = Some sn"
    by blast
  from u have units: "units =
     [PDict [(''serial_number'', PStr ''FGT-C'')],
      PDict [(''serial_number'', PStr ''FGT-A''), (''description'', PStr ''Spare'')],
      PDict [(''serial_number'', PStr ''FGT-B'')]]"
    by (simp add: three_units_data_def)
  have i0: "(0::nat) < length units" and i1: "(1::nat) < length units"
    and i2: "(2::nat) < length units"
    using units by simp_all
  from all i0 obtain u0 e0 sn0 where
    0: "units ! 0 = PDict u0" "entries ! 0 = PDict e0"
       "map_of u0 ''serial_number'' = Some sn0" "map_of e0 ''Serial_Number'' = Some sn0"
    by blast
  from all i1 obtain u1 e1 sn1 where
    1: "units ! 1 = PDict u1" "entries ! 1 = PDict e1"
       "map_of u1 ''serial_number'' = Some sn1" "map_of e1 ''Serial_Number'' = Some sn1"
    by blast
  from all i2 obtain u2 e2 sn2 where
    2: "units ! 2 = PDict u2" "entries ! 2 = PDict e2"
       "map_of u2 ''serial_number'' = Some sn2" "map_of e2 ''Serial_Number'' = Some sn2"
    by blast
  from 0(1,3) units have s0: "sn0 = PStr ''FGT-C''" by auto
  from 1(1,3) units have s1: "sn1 = PStr ''FGT-A''" by auto
  from 2(1,3) units have s2: "sn2 = PStr ''FGT-B''" by auto
  have len3: "length entries = 3" using len units by simp
  from 0(2,4) 1(2,4) 2(2,4) s0 s1 s2 have
    "entries ! 0 = PDict e0 \<and> map_of e0 ''Serial_Number'' = Some (PStr ''FGT-C'') \<and>
     entries ! 1 = PDict e1 \<and> map_of e1 ''Serial_Number'' = Some (PStr ''FGT-A'') \<and>
     entries ! 2 = PDict e2 \<and> map_of e2 ''Serial_Number'' = Some (PStr ''FGT-B'')"
    by simp
  with wf b len3 show ?thesis by blast
qed

text \<open>
  C3: for every unit of a well-formed request and each of the six optional fields, the
  unit's entry in the payload lacks the field's wire key exactly when the input value is
  absent or falsy, and otherwise holds the input value, unchanged, under that wire key.
\<close>
theorem optional_fields_on_wire:
  assumes "well_formed_request data"
  shows "\<exists>body units entries. body_data data = Inr body \<and>
           map_of data ''registration_units'' = Some (PList units) \<and>
           map_of body ''RegistrationUnits'' = Some (PList entries) \<and>
           length entries = length units \<and>
           (\<forall>i<length units. \<exists>u e. units ! i = PDict u \<and> entries ! i = PDict e \<and>
              (\<forall>(k, wire)\<in>set optional_fields. map_of e wire = wire_value u k))"
proof -
  from assms obtain body units entries where
    b: "body_data data = Inr body"
       "map_of data ''registration_units'' = Some (PList units)"
       "map_of body ''RegistrationUnits'' = Some (PList entries)" and
    l: "list_all2 (\<lambda>unit entry. \<exists>u e sn. unit = PDict u \<and> entry = PDict e \<and>
        map_of u ''serial_number'' = Some sn \<and> unit_data unit = Inr e) units entries"
    by (rule body_data_entries)
  have len: "length entries = length units" using l by (simp add: list_all2_lengthD)
  have "\<exists>u e. units ! i = PDict u \<and> entries ! i = PDict e \<and>
          (\<forall>(k, wire)\<in>set optional_fields. map_of e wire = wire_value u k)"
    if "i < length units" for i
  proof -
    from list_all2_nthD [OF l that] obtain u e where
      ue: "units ! i = PDict u" "entries ! i = PDict e" "unit_data (units ! i) = Inr e"
      by blast
    then have "unit_data (PDict u) = Inr e" by simp
    then have "\<forall>(k, wire)\<in>set optional_fields. map_of e wire = wire_value u k"
      by (blast intro: unit_data_optional)
    with ue show ?thesis by blast
  qed
  with b len show ?thesis by blast
qed

text \<open>
  The example request: the description and the additional information are sent, the
  three empty strings and \<^verbatim>\<open>is_government: false\<close> are left out.
\<close>
theorem optional_fields_on_wire_witness:
  "well_formed_request example_data \<and>
   (\<exists>body entries e. body_data example_data = Inr body \<and>
      map_of body ''RegistrationUnits'' = Some (PList entries) \<and>
      length entries = 1 \<and> entries ! 0 = PDict e \<and>
      map_of e ''Contract_Number'' = None \<and>
      map_of e ''Description'' = Some (PStr ''Backup device'') \<and>
      map_of e ''Asset_Group_IDS'' = None \<and>
      map_of e ''Replaced_Serial_Number'' = None \<and>
      map_of e ''Additional_Info'' = Some (PStr ''10.1.1.1'') \<and>
      map_of e ''Is_Government'' = None)"
proof -
  have wf: "well_formed_request example_data"
    by (simp add: well_formed_request_def well_formed_unit_def example_data_def example_unit_def)
  from optional_fields_on_wire [OF wf] obtain body units entries where
    b: "body_data example_data = Inr body"
       "map_of body ''RegistrationUnits'' = Some (PList entries)" and
    u: "map_of example_data ''registration_units'' = Some (PList units)" and
    len: "length entries = length units" and
    all: "\<forall>i<length units. \<exists>u e. units ! i = PDict u \<and> entries ! i = PDict e \<and>
              (\<forall>(k, wire)\<in>set optional_fields. map_of e wire = wire_value u k)"
    by blast
  from u have units: "units = [example_unit]" by (simp add: example_data_def)
  with all obtain u e where
    ue: "example_unit = PDict u" "entries ! 0 = PDict e" and
    f: "\<forall>(k, wire)\<in>set optional_fields. map_of e wire = wire_value u k"
    by auto
  from f have
    "map_of e ''Contract_Number'' = wire_value u ''contract_number''"
    "map_of e ''Description'' = wire_value u ''description''"
    "map_of e ''Asset_Group_IDS'' = wire_value u ''asset_group_ids''"
    "map_of e ''Replaced_Serial_Number'' = wire_value u ''replaced_serial_number''"
    "map_of e ''Additional_Info'' = wire_value u ''additional_info''"
    "map_of e ''Is_Government'' = wire_value u ''is_government''"
    by (simp_all add: optional_fields_def)
  moreover from ue(1) have
    "u = [(''serial_number'', PStr ''FMG-3K3407400133''),
            (''contract_number'', PStr []),
            (''description'', PStr ''Backup device''),
            (''asset_group_ids'', PStr []),
            (''replaced_serial_number'', PStr []),
            (''additional_info'', PStr ''10.1.1.1''),
            (''is_government'', PBool False)]"
    by (simp add: example_unit_def)
  ultimately have
    "map_of e ''Contract_Number'' = None"
    "map_of e ''Description'' = Some (PStr ''Backup device'')"
    "map_of e ''Asset_Group_IDS'' = None"
    "map_of e ''Replaced_Serial_Number'' = None"
    "map_of e ''Additional_Info'' = Some (PStr ''10.1.1.1'')"
    "map_of e ''Is_Government'' = None"
    by (simp_all add: wire_value_def)
  with wf b len units ue(2) show ?thesis by auto
qed

section \<open>The response\<close>

lemma on_response_complementary:
  "on_response r = Inr out \<Longrightarrow> changed out = (\<not> is_error out)"
  by (auto simp: on_response_def Let_def split: if_splits sum.splits)

text \<open>
  A response with a status code from 400 to 599 is falsy: its body is not parsed, and
  nothing of it reaches the result.
\<close>

lemma on_response_falsy_response:
  "\<not> response_truthy r \<Longrightarrow>
     on_response r = Inr \<lparr>is_error = True, changed = False,
       result = \<lparr>status_code = None, reason = None, content = PNone\<rparr>\<rparr>"
  by (simp add: on_response_def)

lemma on_response_falsy_content:
  "r_content r = JSON v \<Longrightarrow> \<not> truthy v \<Longrightarrow>
     \<exists>res. on_response r = Inr \<lparr>is_error = True, changed = False, result = res\<rparr>"
  by (simp add: on_response_def json_loads_def)

text \<open>When an outcome is returned for a response, which responses count as a success.\<close>

lemma on_response_success_iff:
  assumes "on_response r = Inr out"
  shows "\<not> is_error out \<longleftrightarrow>
     r_status_code r = 200 \<and>
     (\<exists>d s. r_content r = JSON (PDict d) \<and> d \<noteq> [] \<and> map_of d ''Status'' = Some s \<and> py_eq_zero s)"
proof (cases "response_truthy r")
  case False
  with assms show ?thesis
    by (auto simp: on_response_falsy_response response_truthy_def)
next
  case True
  show ?thesis
  proof (cases "r_content r")
    case NotJSON
    with True assms show ?thesis by (simp add: on_response_def json_loads_def)
  next
    case (JSON v)
    show ?thesis
    proof (cases v)
      case (PDict d)
      with True JSON assms show ?thesis
        by (auto simp: on_response_def json_loads_def Let_def split: if_splits option.splits)
    qed (use True JSON assms in \<open>auto simp: on_response_def json_loads_def Let_def split: if_splits\<close>)
  qed
qed

text \<open>
  The responses for which no outcome is returned: the exception of \<^verbatim>\<open>json.loads\<close> or of
  \<^verbatim>\<open>content['Status']\<close> leaves the function, neither call being inside a \<^verbatim>\<open>try\<close>.
\<close>

lemma on_response_raises_iff:
  "(\<exists>e. on_response r = Inl e) \<longleftrightarrow>
     response_truthy r \<and>
     (r_content r = NotJSON \<or>
      (\<exists>v. r_content r = JSON v \<and> truthy v \<and> r_status_code r = 200 \<and>
           (\<forall>d. v = PDict d \<longrightarrow> map_of d ''Status'' = None)))"
proof (cases "r_content r")
  case NotJSON
  then show ?thesis by (simp add: on_response_def json_loads_def)
next
  case (JSON v)
  then show ?thesis
    by (cases v) (auto simp: on_response_def json_loads_def Let_def split: option.splits)
qed

text \<open>
  C4: whenever the POST raises a timeout, the function returns the outcome with
  \<^verbatim>\<open>is_error\<close> true, \<^verbatim>\<open>changed\<close> false, no status code, the reason
  \<^verbatim>\<open>Timeout contacting FortiCare server\<close> and no content, and the one request it has
  sent is all it sends: there is no retry.
\<close>
theorem timeout_outcome:
  assumes "body_data data = Inr body" and "post (post_request body) = RaisesTimeout"
  shows "forticare_register_units post data =
           (Inr \<lparr>is_error = True, changed = False,
                 result = \<lparr>status_code = None,
                           reason = Some ''Timeout contacting FortiCare server'',
                           content = PNone\<rparr>\<rparr>,
            [post_request body])"
  using assms by (simp add: forticare_register_units_def)

text \<open>The example request on a transport that times out.\<close>
theorem timeout_outcome_witness:
  "body_data example_data = Inr example_body \<and>
   simulated RaisesTimeout (post_request example_body) = RaisesTimeout \<and>
   forticare_register_units (simulated RaisesTimeout) example_data =
     (Inr \<lparr>is_error = True, changed = False,
           result = \<lparr>status_code = None,
                     reason = Some ''Timeout contacting FortiCare server'',
                     content = PNone\<rparr>\<rparr>,
      [post_request example_body])"
proof -
  have b: "body_data example_data = Inr example_body" by (rule body_data_example)
  have p: "simulated RaisesTimeout (post_request example_body) = RaisesTimeout"
    by (simp add: simulated_def)
  from timeout_outcome [where post = "simulated RaisesTimeout", OF b p] b p show ?thesis by simp
qed

text \<open>
  C6: whenever the POST raises an exception other than a timeout, the function returns
  the outcome with \<^verbatim>\<open>is_error\<close> true, \<^verbatim>\<open>changed\<close> false, no status code, the reason
  \<^verbatim>\<open>General exception when running POST on FortiCare server\<close>, and as content the
  string made of the exception's traceback object and its formatted traceback.
\<close>
theorem general_exception_outcome:
  assumes "body_data data = Inr body" and "post (post_request body) = RaisesException e"
  shows "forticare_register_units post data =
           (Inr \<lparr>is_error = True, changed = False,
                 result = \<lparr>status_code = None,
                           reason = Some ''General exception when running POST on FortiCare server'',
                           content = PStr (traceback_str e @ format_exc e)\<rparr>\<rparr>,
            [post_request body])"
  using assms by (simp add: forticare_register_units_def)

text \<open>The example request on a transport that refuses the connection.\<close>
theorem general_exception_outcome_witness:
  "body_data example_data = Inr example_body \<and>
   simulated (RaisesException example_exc) (post_request example_body) =
     RaisesException example_exc \<and>
   forticare_register_units (simulated (RaisesException example_exc)) example_data =
     (Inr \<lparr>is_error = True, changed = False,
           result = \<lparr>status_code = None,
                     reason = Some ''General exception when running POST on FortiCare server'',
                     content = PStr ''<traceback object>ConnectionError: connection refused''\<rparr>\<rparr>,
      [post_request example_body])"
proof -
  have b: "body_data example_data = Inr example_body" by (rule body_data_example)
  have p: "simulated (RaisesException example_exc) (post_request example_body) =
     RaisesException example_exc"
    by (simp add: simulated_def)
  from general_exception_outcome [where post = "simulated (RaisesException example_exc)", OF b p] b p show ?thesis
    by (simp add: example_exc_def)
qed

text \<open>
  C5: on every path on which the function returns an outcome (after a timeout, after
  another exception of the POST, after a response), \<^verbatim>\<open>changed\<close> is the negation of
  \<^verbatim>\<open>is_error\<close>.
\<close>
theorem changed_complements_is_error:
  assumes "fst (forticare_register_units post data) = Inr out"
  shows "changed out = (\<not> is_error out)"
proof (cases "body_data data")
  case (Inl e)
  with assms show ?thesis by (simp add: forticare_register_units_def)
next
  case (Inr body)
  show ?thesis
  proof (cases "post (post_request body)")
    case (Returns r)
    with Inr assms have "on_response r = Inr out"
      by (simp add: forticare_register_units_def)
    then show ?thesis by (rule on_response_complementary)
  next
    case RaisesTimeout
    with Inr assms show ?thesis by (auto simp: forticare_register_units_def)
  next
    case (RaisesException e)
    with Inr assms show ?thesis by (auto simp: forticare_register_units_def)
  qed
qed

text \<open>
  The example request answered with status 200 and \<^verbatim>\<open>Status\<close> 0: the outcome is a
  success, \<^verbatim>\<open>is_error\<close> false and \<^verbatim>\<open>changed\<close> true.
\<close>
theorem changed_complements_is_error_witness:
  "fst (forticare_register_units (simulated (Returns response_registered)) example_data) =
     Inr \<lparr>is_error = False, changed = True,
          result = \<lparr>status_code = Some 200, reason = Some ''OK'',
                    content = PDict [(''Status'', PInt 0), (''Message'', PStr ''Success'')]\<rparr>\<rparr> \<and>
   changed \<lparr>is_error = False, changed = True,
          result = \<lparr>status_code = Some 200, reason = Some ''OK'',
                    content = PDict [(''Status'', PInt 0), (''Message'', PStr ''Success'')]\<rparr>\<rparr> =
   (\<not> is_error \<lparr>is_error = False, changed = True,
          result = \<lparr>status_code = Some 200, reason = Some ''OK'',
                    content = PDict [(''Status'', PInt 0), (''Message'', PStr ''Success'')]\<rparr>\<rparr>)"
proof -
  have h: "fst (forticare_register_units (simulated (Returns response_registered)) example_data) =
     Inr \<lparr>is_error = False, changed = True,
          result = \<lparr>status_code = Some 200, reason = Some ''OK'',
                    content = PDict [(''Status'', PInt 0), (''Message'', PStr ''Success'')]\<rparr>\<rparr>"
    by (simp add: forticare_register_units_def body_data_example simulated_def
        response_registered_def on_response_def response_truthy_def json_loads_def)
  from changed_complements_is_error [OF h] h show ?thesis by simp
qed

text \<open>
  C8: for every response with status code 500, whatever its body, the function returns
  an outcome, and the outcome has \<^verbatim>\<open>is_error\<close> true. (Such a response is falsy, so
  its body is never handed to \<^verbatim>\<open>json.loads\<close>.)
\<close>
theorem status_500_is_error:
  assumes "body_data data = Inr body" and "post (post_request body) = Returns r"
    and "r_status_code r = 500"
  shows "\<exists>out. fst (forticare_register_units post data) = Inr out \<and> is_error out"
proof -
  from assms(3) have "\<not> response_truthy r" by (simp add: response_truthy_def)
  then have "on_response r = Inr \<lparr>is_error = True, changed = False,
       result = \<lparr>status_code = None, reason = None, content = PNone\<rparr>\<rparr>"
    by (rule on_response_falsy_response)
  with assms(1,2) show ?thesis by (simp add: forticare_register_units_def)
qed

text \<open>The example request answered with status 500 and a body that is not JSON.\<close>
theorem status_500_is_error_witness:
  "body_data example_data = Inr example_body \<and>
   simulated (Returns response_500) (post_request example_body) = Returns response_500 \<and>
   r_status_code response_500 = 500 \<and>
   (\<exists>out. fst (forticare_register_units (simulated (Returns response_500)) example_data) = Inr out
      \<and> is_error out)"
proof -
  have b: "body_data example_data = Inr example_body" by (rule body_data_example)
  have p: "simulated (Returns response_500) (post_request example_body) = Returns response_500"
    by (simp add: simulated_def)
  have s: "r_status_code response_500 = 500" by (simp add: response_500_def)
  from status_500_is_error [where post = "simulated (Returns response_500)", OF b p s] b p s show ?thesis by simp
qed

text \<open>
  C10: for every response whose body parses to a falsy value (\<^verbatim>\<open>{}\<close>, \<^verbatim>\<open>[]\<close>,
  \<^verbatim>\<open>null\<close>, \<^verbatim>\<open>false\<close>, \<^verbatim>\<open>0\<close>, \<^verbatim>\<open>0.0\<close>, the empty string), whatever the status
  code and so also for 200, the function returns an outcome with \<^verbatim>\<open>is_error\<close> true and
  \<^verbatim>\<open>changed\<close> false.
\<close>
theorem falsy_body_is_error:
  assumes "body_data data = Inr body" and "post (post_request body) = Returns r"
    and "r_content r = JSON v" and "\<not> truthy v"
  shows "\<exists>out. fst (forticare_register_units post data) = Inr out \<and>
           is_error out \<and> \<not> changed out"
proof -
  from assms(3,4) obtain res where
    "on_response r = Inr \<lparr>is_error = True, changed = False, result = res\<rparr>"
    using on_response_falsy_content by blast
  with assms(1,2) show ?thesis by (simp add: forticare_register_units_def)
qed

text \<open>The example request answered with status 200 and the empty object.\<close>
theorem falsy_body_is_error_witness:
  "body_data example_data = Inr example_body \<and>
   simulated (Returns response_empty_object) (post_request example_body) =
     Returns response_empty_object \<and>
   r_status_code response_empty_object = 200 \<and>
   r_content response_empty_object = JSON (PDict []) \<and> \<not> truthy (PDict []) \<and>
   (\<exists>out. fst (forticare_register_units (simulated (Returns response_empty_object))
              example_data) = Inr out \<and> is_error out \<and> \<not> changed out)"
proof -
  have b: "body_data example_data = Inr example_body" by (rule body_data_example)
  have p: "simulated (Returns response_empty_object) (post_request example_body) =
     Returns response_empty_object"
    by (simp add: simulated_def)
  have c: "r_content response_empty_object = JSON (PDict [])"
    by (simp add: response_empty_object_def)
  have t: "\<not> truthy (PDict [])" by simp
  have s: "r_status_code response_empty_object = 200" by (simp add: response_empty_object_def)
  from falsy_body_is_error [where post = "simulated (Returns response_empty_object)", OF b p c t] b p c s show ?thesis by simp
qed

text \<open>
  C1: every response other than a 200 whose body has \<^verbatim>\<open>Status\<close> 0 is to yield an
  outcome with \<^verbatim>\<open>is_error\<close> true and \<^verbatim>\<open>changed\<close> false, a response whose body could
  not be parsed included. For the example request answered with status 200 and a body
  that is not JSON the function returns no outcome: the \<^verbatim>\<open>ValueError\<close> of
  \<^verbatim>\<open>json.loads\<close> leaves it.
\<close>
theorem not_json_body_raises:
  "fst (forticare_register_units (simulated (Returns response_not_json)) example_data) =
     Inl ValueError"
  by (simp add: forticare_register_units_def body_data_example simulated_def
      response_not_json_def on_response_def response_truthy_def json_loads_def)

text \<open>
  C2: the function is never to raise, also not on a response whose JSON body lacks the
  \<^verbatim>\<open>Status\<close> key. For the example request answered with status 200 and the body
  \<^verbatim>\<open>{"Message": "Invalid token"}\<close> the \<^verbatim>\<open>KeyError\<close> of \<^verbatim>\<open>content['Status']\<close> leaves
  the function.
\<close>
theorem body_without_status_raises:
  "fst (forticare_register_units (simulated (Returns response_without_status)) example_data) =
     Inl (KeyError ''Status'')"
  by (simp add: forticare_register_units_def body_data_example simulated_def
      response_without_status_def on_response_def response_truthy_def json_loads_def)

end
